theory Spec2Isabelle
  imports Main "HOL-Library.Sublist"
begin

section \<open>Data model (netflixapp/models.py)\<close>

text \<open>
  A stored UUID is the 128-bit integer of a \<open>uuid.UUID\<close>. A requested id is the text of
  the path segment, one code point below 256 per character; Django's \<open>UUIDField\<close> parses
  it when it is used in a lookup. A \<open>uuid.UUID\<close> object handed over by a path converter
  behaves as its canonical text does.
\<close>

type_synonym uuid = nat

definition AGE_CHOICES :: "(string \<times> string) list" where
  "AGE_CHOICES = [(''All'', ''All''), (''Kids'', ''Kids'')]"

definition MOVIE_CHOICES :: "(string \<times> string) list" where
  "MOVIE_CHOICES = [(''seasonal'', ''Seasonal''), (''single'', ''Single'')]"

text \<open>
  Every model has the implicit auto-increment primary key \<open>id\<close>; it is the \<open>_pk\<close> field of
  each record. The two many-to-many fields (\<open>CustomUser.profiles\<close>, \<open>Movie.video\<close>) are
  the join tables of the database below.
\<close>

record CustomUser =
  user_pk :: nat
  username :: string

record Profile =
  profile_pk :: nat
  profile_name :: string
  profile_age_limit :: string
  profile_uuid :: uuid

record Video =
  video_pk :: nat
  video_title :: string
  video_file :: string

record Movie =
  movie_pk :: nat
  movie_title :: string
  movie_description :: "string option"
  movie_created :: nat
  movie_uuid :: uuid
  movie_type :: string
  movie_image :: string
  movie_age_limit :: string

text \<open>
  The database: one list of rows per table, in storage order, and one list of
  (owner id, target id) pairs per join table.
\<close>

record database =
  profile_table :: "Profile list"
  movie_table :: "Movie list"
  video_table :: "Video list"
  customuser_profiles :: "(nat \<times> nat) list"
  movie_video :: "(nat \<times> nat) list"

section \<open>Exceptions, values and the environment of a request\<close>

text \<open>
  The classes of exception the views can meet; all of them are subclasses of Python's
  \<open>Exception\<close>. \<open>is_RequestException\<close> is the subclass test that
  \<open>except requests.RequestException\<close> performs.
\<close>

datatype exc_class =
    Profile_DoesNotExist
  | Movie_DoesNotExist
  | MultipleObjectsReturned
  | DatabaseError
  | IntegrityError
  | ConnectionError
  | Timeout
  | TooManyRedirects
  | HTTPError
  | RequestsJSONDecodeError
  | ValueError
  | ValidationError
  | AttributeError

datatype exc = Exc (class_of: exc_class) (str_of: string)

fun is_RequestException :: "exc_class \<Rightarrow> bool" where
  "is_RequestException ConnectionError = True"
| "is_RequestException Timeout = True"
| "is_RequestException TooManyRedirects = True"
| "is_RequestException HTTPError = True"
| "is_RequestException RequestsJSONDecodeError = True"
| "is_RequestException _ = False"

datatype pyval = PyNone | PyBool bool | PyStr string

fun str_pyval :: "pyval \<Rightarrow> string" where
  "str_pyval PyNone = ''None''"
| "str_pyval (PyBool b) = (if b then ''True'' else ''False'')"
| "str_pyval (PyStr s) = s"

datatype json =
    JNull
  | JBool bool
  | JNumber int
  | JString string
  | JArray "json list"
  | JObject "(string \<times> json) list"

text \<open>
  What \<open>requests.get\<close> hands back when it returns: the status code, and the JSON value the
  body denotes (\<open>None\<close> when the body is not JSON).
\<close>

record http_response =
  status_code :: nat
  parsed_body :: "json option"

text \<open>The calls into the object-relational mapper, each of which the database can fail.\<close>

datatype call =
    Call_Profile_get
  | Call_profiles_all
  | Call_Profile_create
  | Call_profiles_add
  | Call_Movie_get
  | Call_video_values

text \<open>
  The environment of one request: the process configuration, the value the next
  \<open>uuid.uuid4()\<close> returns, the installed version of the requests library, what the
  metadata provider does with the outbound request that follows \<open>n\<close> earlier ones of the
  same invocation (\<open>Inl\<close>: \<open>requests.get\<close> raises), and which database calls fail.
\<close>

record env =
  settings :: "string \<rightharpoonup> pyval"
  uuid4 :: uuid
  requests_version :: "nat \<times> nat"
  requests_get :: "nat \<Rightarrow> string \<Rightarrow> nat \<Rightarrow> exc + http_response"
  db_raises :: "call \<Rightarrow> exc option"

record request =
  user :: "CustomUser option"
  POST :: "(string \<times> string) list"

text \<open>
  A Django form as the views use it: whether it was given data, the errors found
  (\<open>None\<close> marks a form-level error), and the cleaned data.
\<close>

record form =
  is_bound :: bool
  form_data :: "(string \<times> string) list"
  form_errors :: "(string option \<times> string) list"
  cleaned_data :: "(string \<times> string) list"

datatype fieldval = IntVal nat | StrVal string

datatype ctxval =
    CtxStr string
  | CtxJson json
  | CtxMovie Movie
  | CtxDicts "(string \<times> fieldval) list list"
  | CtxForm form

datatype response =
    Render string "(string \<times> ctxval) list"
  | Redirect string
  | LoginRedirect
  | JsonResponse "(string \<times> pyval) list"

datatype level = WARNING | ERROR

text \<open>What a view does besides answering: log records and calls of \<open>requests.get\<close>.\<close>

datatype event = Log level string | HttpGet string nat

fun is_HttpGet :: "event \<Rightarrow> bool" where
  "is_HttpGet (HttpGet url t) = True"
| "is_HttpGet (Log l m) = False"

section \<open>The framework calls the views make\<close>

text \<open>
  \<open>render\<close> and \<open>redirect\<close> return: the templates and the URL name
  \<open>netflixapp:profile-list\<close> are taken to exist in the deployment.
\<close>

definition render :: "request \<Rightarrow> string \<Rightarrow> (string \<times> ctxval) list \<Rightarrow> response" where
  "render req template context = Render template context"

definition redirect :: "string \<Rightarrow> response" where
  "redirect to = Redirect to"

text \<open>
  The effects of a view are a trace of events, threaded through the calls that have an
  effect: each call of the logger and each call of \<open>requests.get\<close> appends its own event.
  The provider is asked with the number of requests the trace already holds.
\<close>

definition logger_warning :: "string \<Rightarrow> event list \<Rightarrow> event list" where
  "logger_warning message evs = evs @ [Log WARNING message]"

definition logger_error :: "string \<Rightarrow> event list \<Rightarrow> event list" where
  "logger_error message evs = evs @ [Log ERROR message]"

definition call_requests_get ::
    "env \<Rightarrow> string \<Rightarrow> nat \<Rightarrow> event list \<Rightarrow> (exc + http_response) \<times> event list" where
  "call_requests_get e url timeout evs =
     (requests_get e (length (filter is_HttpGet evs)) url timeout,
      evs @ [HttpGet url timeout])"

subsection \<open>Parsing the text of a UUID\<close>

text \<open>\<open>s.replace(sub, '')\<close>: one pass from the left over non-overlapping occurrences.\<close>

fun str_remove_from :: "string \<Rightarrow> nat \<Rightarrow> string \<Rightarrow> string" where
  "str_remove_from sub skip [] = []"
| "str_remove_from sub skip (c # cs) =
     (if 0 < skip then str_remove_from sub (skip - 1) cs
      else if sub \<noteq> [] \<and> take (length sub) (c # cs) = sub
        then str_remove_from sub (length sub - 1) cs
      else c # str_remove_from sub 0 cs)"

definition str_remove :: "string \<Rightarrow> string \<Rightarrow> string" where
  "str_remove sub s = str_remove_from sub 0 s"

text \<open>\<open>s.strip(chars)\<close>.\<close>

definition str_strip :: "string \<Rightarrow> string \<Rightarrow> string" where
  "str_strip chars s =
     rev (dropWhile (\<lambda>c. c \<in> set chars) (rev (dropWhile (\<lambda>c. c \<in> set chars) s)))"

text \<open>The white space of Python below code point 256.\<close>

definition is_space :: "char \<Rightarrow> bool" where
  "is_space c =
     ((9 \<le> (of_char c :: nat) \<and> (of_char c :: nat) \<le> 13) \<or>
      (28 \<le> (of_char c :: nat) \<and> (of_char c :: nat) \<le> 32) \<or>
      (of_char c :: nat) = 133 \<or> (of_char c :: nat) = 160)"

definition hex_value :: "char \<Rightarrow> nat option" where
  "hex_value c =
     (let n = (of_char c :: nat) in
      if 48 \<le> n \<and> n \<le> 57 then Some (n - 48)
      else if 97 \<le> n \<and> n \<le> 102 then Some (n - 87)
      else if 65 \<le> n \<and> n \<le> 70 then Some (n - 55)
      else None)"

fun adjacent_underscores :: "string \<Rightarrow> bool" where
  "adjacent_underscores (a # b # cs) =
     ((a = CHR ''_'' \<and> b = CHR ''_'') \<or> adjacent_underscores (b # cs))"
| "adjacent_underscores cs = False"

definition hex_number :: "string \<Rightarrow> nat" where
  "hex_number ds =
     foldl (\<lambda>n c. 16 * n + (case hex_value c of None \<Rightarrow> 0 | Some d \<Rightarrow> d)) 0 ds"

text \<open>
  \<open>int(s, 16)\<close>: white space on both sides, an optional sign, an optional prefix \<open>0x\<close>
  with one underscore allowed after it, then hexadecimal digits with single underscores
  between them. \<open>None\<close>: the call raises ValueError.
\<close>

definition int_base16 :: "string \<Rightarrow> int option" where
  "int_base16 s =
     (let s1 = dropWhile is_space s;
          negative = (s1 \<noteq> [] \<and> hd s1 = CHR ''-'');
          s2 = (if s1 \<noteq> [] \<and> (hd s1 = CHR ''+'' \<or> hd s1 = CHR ''-'') then tl s1 else s1);
          s3 = (if 2 \<le> length s2 \<and> hd s2 = CHR ''0'' \<and>
                   (hd (tl s2) = CHR ''x'' \<or> hd (tl s2) = CHR ''X'')
                then (if 3 \<le> length s2 \<and> hd (tl (tl s2)) = CHR ''_''
                      then tl (tl (tl s2)) else tl (tl s2))
                else s2);
          run = takeWhile (\<lambda>c. hex_value c \<noteq> None \<or> c = CHR ''_'') s3;
          rest = dropWhile (\<lambda>c. hex_value c \<noteq> None \<or> c = CHR ''_'') s3
      in if run = [] \<or> hd run = CHR ''_'' \<or> last run = CHR ''_'' \<or> adjacent_underscores run \<or>
            \<not> list_all is_space rest
         then None
         else Some ((if negative then - 1 else 1) *
                    int (hex_number (filter (\<lambda>c. c \<noteq> CHR ''_'') run))))"

text \<open>\<open>uuid.UUID(hex)\<close> of the standard library.\<close>

definition uuid_UUID :: "string \<Rightarrow> exc + uuid" where
  "uuid_UUID hex =
     (let h = filter (\<lambda>c. c \<noteq> CHR ''-'')
                (str_strip ''{}'' (str_remove ''uuid:'' (str_remove ''urn:'' hex)))
      in if length h \<noteq> 32
         then Inl (Exc ValueError ''badly formed hexadecimal UUID string'')
         else
           (case int_base16 h of
              None \<Rightarrow> Inl (Exc ValueError ''invalid literal for int() with base 16'')
            | Some n \<Rightarrow>
                if 0 \<le> n \<and> n < 2 ^ 128 then Inr (nat n)
                else Inl (Exc ValueError ''int is out of range (need a 128-bit value)'')))"

text \<open>
  \<open>UUIDField.to_python\<close>, which a lookup on the field applies to the value it is given
  before the database is asked: a text that \<open>uuid.UUID\<close> refuses is a ValidationError.
\<close>

definition UUIDField_to_python :: "string \<Rightarrow> exc + uuid" where
  "UUIDField_to_python v =
     (case uuid_UUID v of
        Inl x \<Rightarrow> Inl (Exc ValidationError (v @ '' is not a valid UUID.''))
      | Inr u \<Rightarrow> Inr u)"

subsection \<open>The object-relational mapper\<close>

text \<open>\<open>Model.objects.get(uuid=v)\<close>: the single matching row, or an exception.\<close>

definition Profile_objects_get :: "env \<Rightarrow> database \<Rightarrow> string \<Rightarrow> exc + Profile" where
  "Profile_objects_get e db v =
     (case UUIDField_to_python v of
        Inl x \<Rightarrow> Inl x
      | Inr u \<Rightarrow>
          (case db_raises e Call_Profile_get of
             Some x \<Rightarrow> Inl x
           | None \<Rightarrow>
               (case filter (\<lambda>p. profile_uuid p = u) (profile_table db) of
                  [] \<Rightarrow> Inl (Exc Profile_DoesNotExist ''Profile matching query does not exist.'')
                | p # [] \<Rightarrow> Inr p
                | p # q # ps \<Rightarrow>
                    Inl (Exc MultipleObjectsReturned
                           ''get() returned more than one Profile''))))"

definition Movie_objects_get :: "env \<Rightarrow> database \<Rightarrow> string \<Rightarrow> exc + Movie" where
  "Movie_objects_get e db v =
     (case UUIDField_to_python v of
        Inl x \<Rightarrow> Inl x
      | Inr u \<Rightarrow>
          (case db_raises e Call_Movie_get of
             Some x \<Rightarrow> Inl x
           | None \<Rightarrow>
               (case filter (\<lambda>m. movie_uuid m = u) (movie_table db) of
                  [] \<Rightarrow> Inl (Exc Movie_DoesNotExist ''Movie matching query does not exist.'')
                | m # [] \<Rightarrow> Inr m
                | m # n # ms \<Rightarrow>
                    Inl (Exc MultipleObjectsReturned
                           ''get() returned more than one Movie''))))"

text \<open>
  The rows behind \<open>user.profiles\<close> and \<open>movie.video\<close>: the rows of the target table that
  the join table links to the owner, in the storage order of the target table (neither
  query has an ORDER BY).
\<close>

definition owned_profiles :: "database \<Rightarrow> CustomUser \<Rightarrow> Profile list" where
  "owned_profiles db u =
     filter (\<lambda>p. (user_pk u, profile_pk p) \<in> set (customuser_profiles db)) (profile_table db)"

definition attached_videos :: "database \<Rightarrow> Movie \<Rightarrow> Video list" where
  "attached_videos db m =
     filter (\<lambda>v. (movie_pk m, video_pk v) \<in> set (movie_video db)) (video_table db)"

text \<open>
  \<open>request.user.profiles.all()\<close>, evaluated. The anonymous user has no attribute
  \<open>profiles\<close>.
\<close>

definition user_profiles_all :: "env \<Rightarrow> database \<Rightarrow> request \<Rightarrow> exc + Profile list" where
  "user_profiles_all e db req =
     (case user req of
        None \<Rightarrow> Inl (Exc AttributeError ''AnonymousUser object has no attribute profiles'')
      | Some u \<Rightarrow>
          (case db_raises e Call_profiles_all of
             Some x \<Rightarrow> Inl x
           | None \<Rightarrow> Inr (owned_profiles db u)))"

text \<open>
  \<open>profile in queryset\<close>: Django compares model instances by primary key.
\<close>

definition profile_in :: "Profile \<Rightarrow> Profile list \<Rightarrow> bool" where
  "profile_in p ps = (profile_pk p \<in> set (map profile_pk ps))"

text \<open>\<open>values()\<close> of a Video row: its stored columns, in field order.\<close>

definition Video_values :: "Video \<Rightarrow> (string \<times> fieldval) list" where
  "Video_values v =
     [(''id'', IntVal (video_pk v)), (''title'', StrVal (video_title v)),
      (''file'', StrVal (video_file v))]"

definition movie_video_values ::
    "env \<Rightarrow> database \<Rightarrow> Movie \<Rightarrow> exc + (string \<times> fieldval) list list" where
  "movie_video_values e db m =
     (case db_raises e Call_video_values of
        Some x \<Rightarrow> Inl x
      | None \<Rightarrow> Inr (map Video_values (attached_videos db m)))"

text \<open>\<open>settings.NAME\<close> raises AttributeError when the setting is absent.\<close>

definition settings_attr :: "env \<Rightarrow> string \<Rightarrow> exc + pyval" where
  "settings_attr e name =
     (case settings e name of
        None \<Rightarrow> Inl (Exc AttributeError (''Settings object has no attribute '' @ name))
      | Some v \<Rightarrow> Inr v)"

text \<open>\<open>getattr(settings, name, None)\<close>.\<close>

definition getattr_settings :: "env \<Rightarrow> string \<Rightarrow> pyval" where
  "getattr_settings e name = (case settings e name of None \<Rightarrow> PyNone | Some v \<Rightarrow> v)"

subsection \<open>The requests library\<close>

text \<open>\<open>Response.raise_for_status\<close> raises HTTPError for the statuses 400 to 599.\<close>

definition raise_for_status :: "http_response \<Rightarrow> exc + unit" where
  "raise_for_status r =
     (if 400 \<le> status_code r \<and> status_code r < 500
        then Inl (Exc HTTPError ''Client Error'')
      else if 500 \<le> status_code r \<and> status_code r < 600
        then Inl (Exc HTTPError ''Server Error'')
      else Inr ())"

text \<open>
  \<open>Response.json\<close>: from version 2.27 of the library a body that is not JSON raises
  \<open>requests.exceptions.JSONDecodeError\<close>, a RequestException; before, it raises the
  decoder's own error, a ValueError.
\<close>

definition json_decode_error :: "nat \<times> nat \<Rightarrow> exc_class" where
  "json_decode_error v =
     (if 2 < fst v \<or> (fst v = 2 \<and> 27 \<le> snd v) then RequestsJSONDecodeError else ValueError)"

definition response_json :: "env \<Rightarrow> http_response \<Rightarrow> exc + json" where
  "response_json e r =
     (case parsed_body r of
        None \<Rightarrow> Inl (Exc (json_decode_error (requests_version e)) ''Expecting value'')
      | Some j \<Rightarrow> Inr j)"

text \<open>
  \<open>data.get(key, default)\<close> on the decoded body: only a JSON object is a dict (a repeated
  key keeps its last value); every other JSON value has no method \<open>get\<close>.
\<close>

fun data_get :: "json \<Rightarrow> string \<Rightarrow> json \<Rightarrow> exc + json" where
  "data_get (JObject kvs) k d = Inr (case map_of (rev kvs) k of Some v \<Rightarrow> v | None \<Rightarrow> d)"
| "data_get j k d = Inl (Exc AttributeError ''object has no attribute get'')"

section \<open>The views (netflixapp/views.py)\<close>

definition profile_list_url :: string where
  "profile_list_url = ''netflixapp:profile-list''"

text \<open>
  \<open>login_required\<close> on \<open>dispatch\<close>: an anonymous request is sent to the login page and
  the view does not run.
\<close>

definition login_required ::
    "(request \<Rightarrow> response \<times> event list) \<Rightarrow> request \<Rightarrow> response \<times> event list" where
  "login_required view req =
     (case user req of None \<Rightarrow> (LoginRedirect, []) | Some u \<Rightarrow> view req)"

subsection \<open>MovieList\<close>

definition omdb_url :: "pyval \<Rightarrow> string" where
  "omdb_url api_key = ''http://www.omdbapi.com/?s=movie&apikey='' @ str_pyval api_key"

text \<open>Lines 127 to 133: the body of the inner \<open>try\<close>, run after the events \<open>evs\<close>.\<close>

definition MovieList_fetch ::
    "env \<Rightarrow> request \<Rightarrow> string \<Rightarrow> string \<Rightarrow> event list \<Rightarrow> (exc + response) \<times> event list" where
  "MovieList_fetch e req url profile_id evs =
     (case call_requests_get e url 10 evs of
        (Inl x, evs1) \<Rightarrow> (Inl x, evs1)
      | (Inr r, evs1) \<Rightarrow>
          (case raise_for_status r of
             Inl x \<Rightarrow> (Inl x, evs1)
           | Inr u \<Rightarrow>
               (case response_json e r of
                  Inl x \<Rightarrow> (Inl x, evs1)
                | Inr data \<Rightarrow>
                    (case data_get data ''Search'' (JArray []) of
                       Inl x \<Rightarrow> (Inl x, evs1)
                     | Inr movies \<Rightarrow>
                         (Inr (render req ''movielist.html''
                                 [(''movies'', CtxJson movies),
                                  (''profile_id'', CtxStr profile_id)]),
                          evs1)))))"

text \<open>
  Lines 115 to 139: the body of the outer \<open>try\<close>, with the handler of the inner one. The
  result is what the body returns or raises, and the events up to that point.
\<close>

definition MovieList_try ::
    "env \<Rightarrow> database \<Rightarrow> request \<Rightarrow> string \<Rightarrow> (exc + response) \<times> event list" where
  "MovieList_try e db req profile_id =
     (case Profile_objects_get e db profile_id of
        Inl x \<Rightarrow> (Inl x, [])
      | Inr profile \<Rightarrow>
          (case user_profiles_all e db req of
             Inl x \<Rightarrow> (Inl x, [])
           | Inr owned \<Rightarrow>
               if \<not> profile_in profile owned then (Inr (redirect profile_list_url), [])
               else
                 (case settings_attr e ''OMDB_API_KEY'' of
                    Inl x \<Rightarrow> (Inl x, [])
                  | Inr api_key \<Rightarrow>
                      (case MovieList_fetch e req (omdb_url api_key) profile_id [] of
                         (Inr resp, evs) \<Rightarrow> (Inr resp, evs)
                       | (Inl x, evs) \<Rightarrow>
                           if is_RequestException (class_of x)
                           then (Inr (render req ''movielist.html''
                                        [(''error'', CtxStr ''Unable to fetch movies at this time.''),
                                         (''profile_id'', CtxStr profile_id)]),
                                 logger_error (''OMDB API error: '' @ str_of x) evs)
                           else (Inl x, evs)))))"

text \<open>Lines 141 to 148: the two handlers of the outer \<open>try\<close>.\<close>

definition MovieList_get ::
    "env \<Rightarrow> database \<Rightarrow> string \<Rightarrow> request \<Rightarrow> response \<times> event list" where
  "MovieList_get e db profile_id req =
     (case MovieList_try e db req profile_id of
        (Inr resp, evs) \<Rightarrow> (resp, evs)
      | (Inl x, evs) \<Rightarrow>
          if class_of x = Profile_DoesNotExist
          then (redirect profile_list_url,
                logger_warning (''Attempted to access non-existent profile: '' @ profile_id) evs)
          else (redirect profile_list_url,
                logger_error (''Unexpected error in MovieList view: '' @ str_of x) evs))"

definition MovieList_view ::
    "env \<Rightarrow> database \<Rightarrow> string \<Rightarrow> request \<Rightarrow> response \<times> event list" where
  "MovieList_view e db profile_id = login_required (MovieList_get e db profile_id)"

subsection \<open>MovieDetail\<close>

definition MovieDetail_get ::
    "env \<Rightarrow> database \<Rightarrow> string \<Rightarrow> request \<Rightarrow> response \<times> event list" where
  "MovieDetail_get e db movie_id req =
     (case Movie_objects_get e db movie_id of
        Inr movie \<Rightarrow> (render req ''moviedetail.html'' [(''movie'', CtxMovie movie)], [])
      | Inl x \<Rightarrow>
          if class_of x = Movie_DoesNotExist
          then (redirect profile_list_url,
                logger_warning (''Attempted to access non-existent movie: '' @ movie_id) [])
          else (redirect profile_list_url,
                logger_error (''Error in MovieDetail view: '' @ str_of x) []))"

definition MovieDetail_view ::
    "env \<Rightarrow> database \<Rightarrow> string \<Rightarrow> request \<Rightarrow> response \<times> event list" where
  "MovieDetail_view e db movie_id = login_required (MovieDetail_get e db movie_id)"

subsection \<open>PlayMovie\<close>

text \<open>Lines 210 to 213: the body of the \<open>try\<close>.\<close>

definition PlayMovie_try :: "env \<Rightarrow> database \<Rightarrow> string \<Rightarrow> request \<Rightarrow> exc + response" where
  "PlayMovie_try e db movie_id req =
     (case Movie_objects_get e db movie_id of
        Inl x \<Rightarrow> Inl x
      | Inr movie \<Rightarrow>
          (case movie_video_values e db movie of
             Inl x \<Rightarrow> Inl x
           | Inr vs \<Rightarrow> Inr (render req ''playmovie.html'' [(''movie'', CtxDicts vs)])))"

definition PlayMovie_get ::
    "env \<Rightarrow> database \<Rightarrow> string \<Rightarrow> request \<Rightarrow> response \<times> event list" where
  "PlayMovie_get e db movie_id req =
     (case PlayMovie_try e db movie_id req of
        Inr resp \<Rightarrow> (resp, [])
      | Inl x \<Rightarrow>
          if class_of x = Movie_DoesNotExist
          then (redirect profile_list_url,
                logger_warning (''Attempted to play non-existent movie: '' @ movie_id) [])
          else (redirect profile_list_url,
                logger_error (''Error in PlayMovie view: '' @ str_of x) []))"

definition PlayMovie_view ::
    "env \<Rightarrow> database \<Rightarrow> string \<Rightarrow> request \<Rightarrow> response \<times> event list" where
  "PlayMovie_view e db movie_id = login_required (PlayMovie_get e db movie_id)"

subsection \<open>debug_settings\<close>

definition debug_settings :: "env \<Rightarrow> request \<Rightarrow> response" where
  "debug_settings e req =
     JsonResponse
       [(''SECURE_SSL_REDIRECT'', getattr_settings e ''SECURE_SSL_REDIRECT''),
        (''SESSION_COOKIE_SECURE'', getattr_settings e ''SESSION_COOKIE_SECURE''),
        (''CSRF_COOKIE_SECURE'', getattr_settings e ''CSRF_COOKIE_SECURE''),
        (''DEBUG'', getattr_settings e ''DEBUG'')]"

subsection \<open>ProfileForm\<close>

text \<open>
  Modelled from the spec: \<open>ProfileForm\<close> of netflixapp/forms.py is not among the sources.
  Its fields and their validation are those of the spec's Profile Creation: a required name
  of at most 200 characters and a required age category in \<open>AGE_CHOICES\<close>. Everything else
  is the behaviour of a Django form: a form built from \<open>None\<close> is unbound, has no errors
  and is not valid; a field is read from the submitted data by its name, the last value
  winning, and a missing field reads as empty. A character is one element of the string.
\<close>

definition field_value :: "(string \<times> string) list \<Rightarrow> string \<Rightarrow> string" where
  "field_value d k = (case map_of (rev d) k of None \<Rightarrow> [] | Some v \<Rightarrow> v)"

definition name_errors :: "string \<Rightarrow> string list" where
  "name_errors v =
     (if v = [] then [''This field is required.'']
      else if 200 < length v then [''Ensure this value has at most 200 characters.'']
      else [])"

definition age_limit_errors :: "string \<Rightarrow> string list" where
  "age_limit_errors v =
     (if v = [] then [''This field is required.'']
      else if v \<notin> set (map fst AGE_CHOICES) then [''Select a valid choice.'']
      else [])"

definition ProfileForm :: "(string \<times> string) list option \<Rightarrow> form" where
  "ProfileForm data =
     (case data of
        None \<Rightarrow> \<lparr>is_bound = False, form_data = [], form_errors = [], cleaned_data = []\<rparr>
      | Some d \<Rightarrow>
          \<lparr>is_bound = True, form_data = d,
           form_errors =
             map (Pair (Some ''name'')) (name_errors (field_value d ''name'')) @
             map (Pair (Some ''age_limit'')) (age_limit_errors (field_value d ''age_limit'')),
           cleaned_data =
             (if name_errors (field_value d ''name'') = []
              then [(''name'', field_value d ''name'')] else []) @
             (if age_limit_errors (field_value d ''age_limit'') = []
              then [(''age_limit'', field_value d ''age_limit'')] else [])\<rparr>)"

definition is_valid :: "form \<Rightarrow> bool" where
  "is_valid f = (is_bound f \<and> form_errors f = [])"

definition add_error :: "form \<Rightarrow> string option \<Rightarrow> string \<Rightarrow> form" where
  "add_error f field message = f\<lparr>form_errors := form_errors f @ [(field, message)]\<rparr>"

subsection \<open>ProfileCreate\<close>

text \<open>\<open>request.POST or None\<close>: an empty QueryDict is falsy.\<close>

definition POST_or_None :: "request \<Rightarrow> (string \<times> string) list option" where
  "POST_or_None req = (if POST req = [] then None else Some (POST req))"

definition next_pk :: "nat list \<Rightarrow> nat" where
  "next_pk pks = Suc (fold max pks 0)"

text \<open>
  \<open>Profile.objects.create(**kwargs)\<close>: a new row with the next primary key and a fresh
  UUID; a field that is not given keeps its empty default. The column \<open>uuid\<close> is unique,
  so a UUID already stored is an IntegrityError. Nothing is written when the call raises.
\<close>

definition Profile_objects_create ::
    "env \<Rightarrow> database \<Rightarrow> (string \<times> string) list \<Rightarrow> exc + Profile \<times> database" where
  "Profile_objects_create e db kwargs =
     (case db_raises e Call_Profile_create of
        Some x \<Rightarrow> Inl x
      | None \<Rightarrow>
          if uuid4 e \<in> set (map profile_uuid (profile_table db))
          then Inl (Exc IntegrityError ''UNIQUE constraint failed: netflixapp_profile.uuid'')
          else
            (let profile =
                   \<lparr>profile_pk = next_pk (map profile_pk (profile_table db)),
                    profile_name = (case map_of kwargs ''name'' of None \<Rightarrow> [] | Some v \<Rightarrow> v),
                    profile_age_limit =
                      (case map_of kwargs ''age_limit'' of None \<Rightarrow> [] | Some v \<Rightarrow> v),
                    profile_uuid = uuid4 e\<rparr>
             in Inr (profile, db\<lparr>profile_table := profile_table db @ [profile]\<rparr>)))"

text \<open>
  \<open>request.user.profiles.add(profile)\<close>: one more pair in the join table, unless it is
  there already.
\<close>

definition user_profiles_add ::
    "env \<Rightarrow> database \<Rightarrow> request \<Rightarrow> Profile \<Rightarrow> exc + database" where
  "user_profiles_add e db req profile =
     (case user req of
        None \<Rightarrow> Inl (Exc AttributeError ''AnonymousUser object has no attribute profiles'')
      | Some u \<Rightarrow>
          (case db_raises e Call_profiles_add of
             Some x \<Rightarrow> Inl x
           | None \<Rightarrow>
               Inr (db\<lparr>customuser_profiles :=
                          customuser_profiles db @
                            (if (user_pk u, profile_pk profile) \<in> set (customuser_profiles db)
                             then [] else [(user_pk u, profile_pk profile)])\<rparr>)))"

text \<open>
  Lines 75 to 78: the body of the \<open>try\<close>, with the database it leaves behind. A model
  instance is always truthy, so \<open>if profile:\<close> always takes its branch.
\<close>

definition ProfileCreate_try ::
    "env \<Rightarrow> database \<Rightarrow> request \<Rightarrow> form \<Rightarrow> (exc + response) \<times> database" where
  "ProfileCreate_try e db req f =
     (case Profile_objects_create e db (cleaned_data f) of
        Inl x \<Rightarrow> (Inl x, db)
      | Inr (profile, db1) \<Rightarrow>
          (case user_profiles_add e db1 req profile of
             Inl x \<Rightarrow> (Inl x, db1)
           | Inr db2 \<Rightarrow> (Inr (redirect profile_list_url), db2)))"

definition ProfileCreate_post ::
    "env \<Rightarrow> database \<Rightarrow> request \<Rightarrow> response \<times> database \<times> event list" where
  "ProfileCreate_post e db req =
     (let f = ProfileForm (POST_or_None req) in
      if is_valid f then
        (case ProfileCreate_try e db req f of
           (Inr resp, db') \<Rightarrow> (resp, db', [])
         | (Inl x, db') \<Rightarrow>
             (render req ''profilecreate.html''
                [(''form'',
                  CtxForm (add_error f None ''An error occurred while creating the profile.''))],
              db', logger_error (''Error creating profile: '' @ str_of x) []))
      else (render req ''profilecreate.html'' [(''form'', CtxForm f)], db, []))"

definition ProfileCreate_post_view ::
    "env \<Rightarrow> database \<Rightarrow> request \<Rightarrow> response \<times> database \<times> event list" where
  "ProfileCreate_post_view e db req =
     (case user req of None \<Rightarrow> (LoginRedirect, db, []) | Some u \<Rightarrow> ProfileCreate_post e db req)"

section \<open>Changing the age category of titles\<close>


section \<open>Example data\<close>

definition alice :: CustomUser where
  "alice = \<lparr>user_pk = 1, username = ''alice''\<rparr>"

definition bob :: CustomUser where
  "bob = \<lparr>user_pk = 2, username = ''bob''\<rparr>"

definition kids_room :: Profile where
  "kids_room = \<lparr>profile_pk = 1, profile_name = ''Kids Room'', profile_age_limit = ''Kids'',
                 profile_uuid = 1\<rparr>"

definition den :: Profile where
  "den = \<lparr>profile_pk = 2, profile_name = ''Den'', profile_age_limit = ''All'',
           profile_uuid = 2\<rparr>"

definition trailer :: Video where
  "trailer = \<lparr>video_pk = 1, video_title = ''Trailer'', video_file = ''movies/trailer.mp4''\<rparr>"

definition feature :: Video where
  "feature = \<lparr>video_pk = 2, video_title = ''Feature'', video_file = ''movies/feature.mp4''\<rparr>"

definition extras :: Video where
  "extras = \<lparr>video_pk = 3, video_title = ''Extras'', video_file = ''movies/extras.mp4''\<rparr>"

definition heist :: Movie where
  "heist = \<lparr>movie_pk = 1, movie_title = ''Heist'', movie_description = None,
             movie_created = 0, movie_uuid = 161, movie_type = ''single'',
             movie_image = ''covers/heist.png'', movie_age_limit = ''All''\<rparr>"

text \<open>
  alice owns \<open>kids_room\<close>, bob owns \<open>den\<close>; the title \<open>heist\<close> has the videos \<open>trailer\<close>
  and \<open>feature\<close> attached.
\<close>

definition shop :: database where
  "shop = \<lparr>profile_table = [kids_room, den], movie_table = [heist],
            video_table = [trailer, feature, extras],
            customuser_profiles = [(1, 1), (2, 2)], movie_video = [(1, 1), (1, 2)]\<rparr>"

text \<open>
  The ids of \<open>kids_room\<close> and of \<open>heist\<close> as texts, the id of no record, another
  spelling of the id of \<open>kids_room\<close>, and a text that is no UUID.
\<close>

definition kids_room_id :: string where
  "kids_room_id = ''00000000-0000-0000-0000-000000000001''"

definition heist_id :: string where
  "heist_id = ''00000000-0000-0000-0000-0000000000a1''"

definition nobody_id :: string where
  "nobody_id = ''00000000-0000-0000-0000-0000000000ff''"

definition kids_room_urn :: string where
  "kids_room_urn = ''urn:uuid:{00000000000000000000000000000001}''"

definition no_uuid :: string where
  "no_uuid = ''uuid-zz''"

definition as_alice :: request where
  "as_alice = \<lparr>user = Some alice, POST = []\<rparr>"

definition as_bob :: request where
  "as_bob = \<lparr>user = Some bob, POST = []\<rparr>"

text \<open>A provider that answers 200 with one search result, and a database that answers.\<close>

definition calm :: env where
  "calm = \<lparr>settings = [''OMDB_API_KEY'' \<mapsto> PyStr ''k3y'', ''DEBUG'' \<mapsto> PyBool False,
                         ''SECURE_SSL_REDIRECT'' \<mapsto> PyBool True,
                         ''SESSION_COOKIE_SECURE'' \<mapsto> PyBool True,
                         ''CSRF_COOKIE_SECURE'' \<mapsto> PyBool True],
            uuid4 = 3, requests_version = (2, 31),
            requests_get =
              (\<lambda>n url t. Inr \<lparr>status_code = 200,
                              parsed_body =
                                Some (JObject [(''Search'', JArray [JString ''Heat''])])\<rparr>),
            db_raises = (\<lambda>c. None)\<rparr>"

definition answering :: "nat \<Rightarrow> json option \<Rightarrow> env" where
  "answering status b =
     calm\<lparr>requests_get := (\<lambda>n url t. Inr \<lparr>status_code = status, parsed_body = b\<rparr>)\<rparr>"

text \<open>A provider that times out on the first request and would answer the second.\<close>

definition slow_start :: env where
  "slow_start =
     calm\<lparr>requests_get :=
            (\<lambda>n url t. if n = 0 then Inl (Exc Timeout ''Read timed out.'')
                       else Inr \<lparr>status_code = 200,
                                 parsed_body =
                                   Some (JObject [(''Search'', JArray [JString ''Heat''])])\<rparr>)\<rparr>"

definition timing_out :: env where
  "timing_out = calm\<lparr>requests_get := (\<lambda>n url t. Inl (Exc Timeout ''Read timed out.''))\<rparr>"

definition db_down :: env where
  "db_down = calm\<lparr>db_raises := (\<lambda>c. Some (Exc DatabaseError ''connection refused''))\<rparr>"

definition study_submission :: request where
  "study_submission =
     \<lparr>user = Some alice, POST = [(''name'', ''Study''), (''age_limit'', ''All'')]\<rparr>"

definition teen_submission :: request where
  "teen_submission =
     \<lparr>user = Some alice, POST = [(''name'', ''Teens''), (''age_limit'', ''Teen'')]\<rparr>"

definition long_name_submission :: request where
  "long_name_submission =
     \<lparr>user = Some alice,
      POST = [(''name'', replicate 201 (CHR ''x'')), (''age_limit'', ''All'')]\<rparr>"

text \<open>An environment whose next UUID is already stored, and one whose attach step fails.\<close>

definition colliding :: env where
  "colliding = calm\<lparr>uuid4 := 1\<rparr>"

definition attach_failing :: env where
  "attach_failing =
     calm\<lparr>db_raises :=
            (\<lambda>c. if c = Call_profiles_add then Some (Exc DatabaseError ''deadlock'') else None)\<rparr>"

definition study :: Profile where
  "study = \<lparr>profile_pk = 3, profile_name = ''Study'', profile_age_limit = ''All'',
             profile_uuid = 3\<rparr>"

section \<open>Auxiliary facts\<close>

lemmas view_defs =
  MovieList_view_def MovieList_get_def MovieList_try_def MovieList_fetch_def
  MovieDetail_view_def MovieDetail_get_def PlayMovie_view_def PlayMovie_get_def
  PlayMovie_try_def login_required_def render_def redirect_def profile_list_url_def
  Profile_objects_get_def Movie_objects_get_def user_profiles_all_def owned_profiles_def
  attached_videos_def profile_in_def movie_video_values_def Video_values_def
  settings_attr_def omdb_url_def raise_for_status_def response_json_def
  json_decode_error_def call_requests_get_def logger_warning_def logger_error_def

lemmas create_defs =
  ProfileCreate_post_view_def ProfileCreate_post_def ProfileCreate_try_def
  Profile_objects_create_def user_profiles_add_def ProfileForm_def POST_or_None_def
  is_valid_def add_error_def field_value_def name_errors_def age_limit_errors_def
  AGE_CHOICES_def next_pk_def render_def redirect_def profile_list_url_def
  logger_error_def Let_def

lemmas example_defs =
  alice_def bob_def kids_room_def den_def trailer_def feature_def extras_def heist_def
  shop_def as_alice_def as_bob_def calm_def answering_def timing_out_def db_down_def
  slow_start_def study_submission_def teen_submission_def long_name_submission_def
  colliding_def attach_failing_def study_def

text \<open>What the example ids parse to.\<close>

lemma kids_room_id_parses: "UUIDField_to_python kids_room_id = Inr 1"
  by code_simp

lemma heist_id_parses: "UUIDField_to_python heist_id = Inr 161"
  by code_simp

lemma nobody_id_parses: "UUIDField_to_python nobody_id = Inr 255"
  by code_simp

lemma kids_room_urn_parses: "UUIDField_to_python kids_room_urn = Inr 1"
  by code_simp

lemma no_uuid_refused:
  "UUIDField_to_python no_uuid = Inl (Exc ValidationError (no_uuid @ '' is not a valid UUID.''))"
  by code_simp

lemmas id_parses =
  kids_room_id_parses heist_id_parses nobody_id_parses kids_room_urn_parses no_uuid_refused



lemma Profile_objects_get_Inr:
  assumes "Profile_objects_get e db i = Inr p"
  shows "p \<in> set (profile_table db) \<and> UUIDField_to_python i = Inr (profile_uuid p)"
proof -
  from assms obtain u where u: "UUIDField_to_python i = Inr u"
    by (cases "UUIDField_to_python i") (simp_all add: Profile_objects_get_def)
  with assms have n: "db_raises e Call_Profile_get = None"
    by (auto simp: Profile_objects_get_def split: option.splits)
  with assms u have "filter (\<lambda>p. profile_uuid p = u) (profile_table db) = [p]"
    by (auto simp: Profile_objects_get_def split: list.splits)
  then have "p \<in> set (filter (\<lambda>p. profile_uuid p = u) (profile_table db))" by simp
  with u show ?thesis by simp
qed






lemma Profile_objects_create_Inr:
  assumes "Profile_objects_create e db kw = Inr (p, d1)"
  shows "d1 = db\<lparr>profile_table := profile_table db @ [p]\<rparr> \<and>
         profile_uuid p \<notin> profile_uuid ` set (profile_table db)"
  using assms
  by (auto simp: Profile_objects_create_def Let_def split: option.splits if_splits)

text \<open>
  The first request of an invocation is the only one that reaches the provider: what the
  provider would answer to a later one changes nothing.
\<close>

lemma MovieList_fetch_first_attempt:
  "MovieList_fetch (e\<lparr>requests_get := (\<lambda>n. if n = 0 then requests_get e 0 else g n)\<rparr>)
       req url i [] =
     MovieList_fetch e req url i []"
proof -
  let ?e = "e\<lparr>requests_get := (\<lambda>n. if n = 0 then requests_get e 0 else g n)\<rparr>"
  have c: "call_requests_get ?e url 10 [] = call_requests_get e url 10 []"
    by (simp add: call_requests_get_def)
  have j: "response_json ?e r = response_json e r" for r
    by (simp add: response_json_def split: option.splits)
  show ?thesis
    by (auto simp: MovieList_fetch_def c j split: prod.splits sum.splits)
qed

text \<open>The events of the outer \<open>try\<close> of Movie List, derived from the calls it makes.\<close>

lemma MovieList_fetch_trace: "snd (MovieList_fetch e req url i []) = [HttpGet url 10]"
  by (simp add: MovieList_fetch_def call_requests_get_def split: prod.splits sum.splits)

lemma MovieList_try_trace:
  "(\<exists>r. MovieList_try e db req i = (r, [])) \<or>
   (\<exists>r url. MovieList_try e db req i = (r, [HttpGet url 10])) \<or>
   (\<exists>r url m. MovieList_try e db req i = (Inr r, [HttpGet url 10, Log ERROR m]))"
proof (cases "Profile_objects_get e db i")
  case (Inl x)
  then show ?thesis by (simp add: MovieList_try_def)
next
  case get: (Inr profile)
  show ?thesis
  proof (cases "user_profiles_all e db req")
    case (Inl x)
    with get show ?thesis by (simp add: MovieList_try_def)
  next
    case all: (Inr owned)
    show ?thesis
    proof (cases "profile_in profile owned")
      case False
      with get all show ?thesis by (simp add: MovieList_try_def)
    next
      case own: True
      show ?thesis
      proof (cases "settings_attr e ''OMDB_API_KEY''")
        case (Inl x)
        with get all own show ?thesis by (simp add: MovieList_try_def)
      next
        case key: (Inr k)
        obtain r evs where f: "MovieList_fetch e req (omdb_url k) i [] = (r, evs)"
          by (cases "MovieList_fetch e req (omdb_url k) i []")
        with MovieList_fetch_trace [of e req "omdb_url k" i]
        have evs: "evs = [HttpGet (omdb_url k) 10]" by simp
        show ?thesis
        proof (cases r)
          case (Inr resp)
          with get all own key f evs show ?thesis by (simp add: MovieList_try_def)
        next
          case (Inl x)
          with get all own key f evs show ?thesis
            by (cases "is_RequestException (class_of x)")
              (simp_all add: MovieList_try_def logger_error_def)
        qed
      qed
    qed
  qed
qed

lemma MovieList_fetch_response:
  "fst (MovieList_fetch e req url i evs) = Inr r \<Longrightarrow> \<exists>ctx. r = Render ''movielist.html'' ctx"
  by (auto simp: MovieList_fetch_def render_def split: prod.splits sum.splits)

lemma MovieList_try_response:
  assumes "fst (MovieList_try e db req i) = Inr r"
  shows "r = Redirect ''netflixapp:profile-list'' \<or> (\<exists>ctx. r = Render ''movielist.html'' ctx)"
proof (cases "Profile_objects_get e db i")
  case (Inl x)
  with assms show ?thesis by (simp add: MovieList_try_def)
next
  case get: (Inr profile)
  show ?thesis
  proof (cases "user_profiles_all e db req")
    case (Inl x)
    with get assms show ?thesis by (simp add: MovieList_try_def)
  next
    case all: (Inr owned)
    show ?thesis
    proof (cases "profile_in profile owned")
      case False
      with get all assms show ?thesis
        by (simp add: MovieList_try_def redirect_def profile_list_url_def)
    next
      case own: True
      show ?thesis
      proof (cases "settings_attr e ''OMDB_API_KEY''")
        case (Inl x)
        with get all own assms show ?thesis by (simp add: MovieList_try_def)
      next
        case key: (Inr k)
        obtain f evs where f: "MovieList_fetch e req (omdb_url k) i [] = (f, evs)"
          by (cases "MovieList_fetch e req (omdb_url k) i []")
        show ?thesis
        proof (cases f)
          case (Inr resp)
          with get all own key f assms have "r = resp" by (simp add: MovieList_try_def)
          with Inr f MovieList_fetch_response [of e req "omdb_url k" i "[]" resp]
          show ?thesis by simp
        next
          case (Inl x)
          with get all own key f assms show ?thesis
            by (cases "is_RequestException (class_of x)")
              (auto simp: MovieList_try_def render_def)
        qed
      qed
    qed
  qed
qed

section \<open>Movie List and the metadata provider\<close>




text \<open>
  C2. For an authenticated request to Movie List with the id of a profile that is stored
  but is not the UUID of any profile the requesting account owns, the response is a
  redirect to Profile Listing and \<open>requests.get\<close> is not called.
\<close>

theorem MovieList_foreign_profile_redirects:
  assumes "user req = Some u"
    and "UUIDField_to_python i = Inr v"
    and "v \<in> profile_uuid ` set (profile_table db)"
    and "v \<notin> profile_uuid ` set (owned_profiles db u)"
  shows "fst (MovieList_view e db i req) = Redirect ''netflixapp:profile-list'' \<and>
         filter is_HttpGet (snd (MovieList_view e db i req)) = []"
proof -
  have notin: "\<not> profile_in p (owned_profiles db u)"
    if "Profile_objects_get e db i = Inr p" for p
  proof
    assume "profile_in p (owned_profiles db u)"
    then obtain q where q: "q \<in> set (profile_table db)"
      "(user_pk u, profile_pk q) \<in> set (customuser_profiles db)" "profile_pk q = profile_pk p"
      by (auto simp: profile_in_def owned_profiles_def)
    from Profile_objects_get_Inr [OF that] assms(2)
    have p: "p \<in> set (profile_table db)" "profile_uuid p = v"
      by simp_all
    with q have "p \<in> set (owned_profiles db u)" by (simp add: owned_profiles_def)
    with p(2) assms(4) show False by force
  qed
  show ?thesis
    using assms(1) notin
    by (auto simp: MovieList_view_def login_required_def MovieList_get_def MovieList_try_def
        user_profiles_all_def redirect_def profile_list_url_def logger_warning_def
        logger_error_def split: option.splits sum.splits)
qed

text \<open>bob, who owns only \<open>den\<close>, asks for alice's \<open>kids_room\<close>.\<close>

theorem MovieList_foreign_profile_redirects_witness:
  "user as_bob = Some bob \<and>
   UUIDField_to_python kids_room_id = Inr 1 \<and>
   1 \<in> profile_uuid ` set (profile_table shop) \<and>
   1 \<notin> profile_uuid ` set (owned_profiles shop bob) \<and>
   fst (MovieList_view calm shop kids_room_id as_bob) = Redirect ''netflixapp:profile-list'' \<and>
   filter is_HttpGet (snd (MovieList_view calm shop kids_room_id as_bob)) = []"
proof -
  have h: "user as_bob = Some bob"
    "UUIDField_to_python kids_room_id = Inr 1"
    "1 \<in> profile_uuid ` set (profile_table shop)"
    "1 \<notin> profile_uuid ` set (owned_profiles shop bob)"
    by (simp_all add: owned_profiles_def example_defs id_parses)
  from MovieList_foreign_profile_redirects [OF h, of calm] h show ?thesis by simp
qed

text \<open>
  C8. One invocation of Movie List calls \<open>requests.get\<close> at most once, with the timeout
  10, whatever the provider, the database and the request are. After the call nothing
  follows but the answer, preceded on failure by one log record: there is no second
  request. The answer and the trace are those of the first attempt alone, whatever the
  provider would have answered to a later one.
\<close>

theorem MovieList_at_most_one_request:
  "length (filter is_HttpGet (snd (MovieList_view e db i req))) \<le> 1 \<and>
   (snd (MovieList_view e db i req) = [] \<or>
    (\<exists>l m. snd (MovieList_view e db i req) = [Log l m]) \<or>
    (\<exists>url. snd (MovieList_view e db i req) = [HttpGet url 10]) \<or>
    (\<exists>url l m. snd (MovieList_view e db i req) = [HttpGet url 10, Log l m])) \<and>
   MovieList_view (e\<lparr>requests_get := (\<lambda>n. if n = 0 then requests_get e 0 else g n)\<rparr>)
       db i req =
     MovieList_view e db i req"
proof -
  let ?e = "e\<lparr>requests_get := (\<lambda>n. if n = 0 then requests_get e 0 else g n)\<rparr>"
  have get: "snd (MovieList_get e db i req) = [] \<or>
    (\<exists>l m. snd (MovieList_get e db i req) = [Log l m]) \<or>
    (\<exists>url. snd (MovieList_get e db i req) = [HttpGet url 10]) \<or>
    (\<exists>url l m. snd (MovieList_get e db i req) = [HttpGet url 10, Log l m])"
    using MovieList_try_trace [of e db req i]
    by (elim disjE exE)
      (simp_all add: MovieList_get_def logger_warning_def logger_error_def split: sum.splits)
  have 1: "snd (MovieList_view e db i req) = [] \<or>
    (\<exists>l m. snd (MovieList_view e db i req) = [Log l m]) \<or>
    (\<exists>url. snd (MovieList_view e db i req) = [HttpGet url 10]) \<or>
    (\<exists>url l m. snd (MovieList_view e db i req) = [HttpGet url 10, Log l m])"
  proof (cases "user req")
    case None
    then show ?thesis by (simp add: MovieList_view_def login_required_def)
  next
    case (Some u)
    with get show ?thesis by (simp add: MovieList_view_def login_required_def)
  qed
  from 1 have 0: "length (filter is_HttpGet (snd (MovieList_view e db i req))) \<le> 1"
    by (elim disjE exE) simp_all
  have g: "Profile_objects_get ?e db i = Profile_objects_get e db i"
    by (simp add: Profile_objects_get_def split: sum.splits option.splits)
  have a: "user_profiles_all ?e db req = user_profiles_all e db req"
    by (simp add: user_profiles_all_def split: option.splits)
  have k: "settings_attr ?e n = settings_attr e n" for n
    by (simp add: settings_attr_def)
  have "MovieList_try ?e db req i = MovieList_try e db req i"
    unfolding MovieList_try_def g a k MovieList_fetch_first_attempt ..
  then have "MovieList_get ?e db i req = MovieList_get e db i req"
    by (simp add: MovieList_get_def)
  then have 2: "MovieList_view ?e db i req = MovieList_view e db i req"
    by (simp add: MovieList_view_def login_required_def split: option.splits)
  from 0 1 2 show ?thesis by blast
qed

text \<open>
  The provider times out on the first request and would answer a second: alice gets the
  error page after one request.
\<close>

theorem MovieList_at_most_one_request_witness:
  "requests_get slow_start 1 ''http://www.omdbapi.com/?s=movie&apikey=k3y'' 10 =
     Inr \<lparr>status_code = 200,
          parsed_body = Some (JObject [(''Search'', JArray [JString ''Heat''])])\<rparr> \<and>
   MovieList_view slow_start shop kids_room_id as_alice =
     (Render ''movielist.html''
        [(''error'', CtxStr ''Unable to fetch movies at this time.''),
         (''profile_id'', CtxStr kids_room_id)],
      [HttpGet ''http://www.omdbapi.com/?s=movie&apikey=k3y'' 10,
       Log ERROR ''OMDB API error: Read timed out.'']) \<and>
   length (filter is_HttpGet (snd (MovieList_view slow_start shop kids_room_id as_alice))) \<le> 1 \<and>
   MovieList_view slow_start shop kids_room_id as_alice =
     MovieList_view timing_out shop kids_room_id as_alice"
proof -
  have s: "slow_start =
           timing_out\<lparr>requests_get :=
                        (\<lambda>n. if n = 0 then requests_get timing_out 0
                             else requests_get calm n)\<rparr>"
    by (simp add: slow_start_def timing_out_def calm_def fun_eq_iff)
  have v: "MovieList_view timing_out shop kids_room_id as_alice =
     (Render ''movielist.html''
        [(''error'', CtxStr ''Unable to fetch movies at this time.''),
         (''profile_id'', CtxStr kids_room_id)],
      [HttpGet ''http://www.omdbapi.com/?s=movie&apikey=k3y'' 10,
       Log ERROR ''OMDB API error: Read timed out.''])"
    by (simp add: view_defs example_defs id_parses)
  have r: "requests_get slow_start 1 ''http://www.omdbapi.com/?s=movie&apikey=k3y'' 10 =
     Inr \<lparr>status_code = 200,
          parsed_body = Some (JObject [(''Search'', JArray [JString ''Heat''])])\<rparr>"
    by (simp add: example_defs)
  from MovieList_at_most_one_request
         [of timing_out shop kids_room_id as_alice "requests_get calm"] s v r
  show ?thesis by simp
qed


section \<open>Absent records and unexpected failures\<close>



text \<open>
  A text that is no UUID is refused by the lookup before the database is asked: the
  ValidationError is no \<open>DoesNotExist\<close>, so the views log an error, not a warning.
\<close>

lemma malformed_id_redirects_with_one_error:
  assumes "user req = Some u" and "UUIDField_to_python i = Inl x"
  shows "MovieList_view e db i req =
           (Redirect ''netflixapp:profile-list'',
            [Log ERROR (''Unexpected error in MovieList view: '' @ i @ '' is not a valid UUID.'')])"
    and "MovieDetail_view e db i req =
           (Redirect ''netflixapp:profile-list'',
            [Log ERROR (''Error in MovieDetail view: '' @ i @ '' is not a valid UUID.'')])"
    and "PlayMovie_view e db i req =
           (Redirect ''netflixapp:profile-list'',
            [Log ERROR (''Error in PlayMovie view: '' @ i @ '' is not a valid UUID.'')])"
proof -
  from assms(2) have x: "x = Exc ValidationError (i @ '' is not a valid UUID.'')"
    by (auto simp: UUIDField_to_python_def split: sum.splits)
  with assms show "MovieList_view e db i req =
           (Redirect ''netflixapp:profile-list'',
            [Log ERROR (''Unexpected error in MovieList view: '' @ i @ '' is not a valid UUID.'')])"
    by (simp add: MovieList_view_def login_required_def MovieList_get_def MovieList_try_def
        Profile_objects_get_def redirect_def profile_list_url_def logger_error_def)
  from x assms show "MovieDetail_view e db i req =
           (Redirect ''netflixapp:profile-list'',
            [Log ERROR (''Error in MovieDetail view: '' @ i @ '' is not a valid UUID.'')])"
    by (simp add: MovieDetail_view_def login_required_def MovieDetail_get_def
        Movie_objects_get_def redirect_def profile_list_url_def logger_error_def)
  from x assms show "PlayMovie_view e db i req =
           (Redirect ''netflixapp:profile-list'',
            [Log ERROR (''Error in PlayMovie view: '' @ i @ '' is not a valid UUID.'')])"
    by (simp add: PlayMovie_view_def login_required_def PlayMovie_get_def PlayMovie_try_def
        Movie_objects_get_def redirect_def profile_list_url_def logger_error_def)
qed

text \<open>
  C5. An authenticated request to Movie List, Title Detail or Playback is always answered
  by the operation's own page or by a redirect to Profile Listing, for every id, provider,
  database and configuration. Whenever the body of the operation's \<open>try\<close> raises an
  exception \<open>x\<close> other than the operation's \<open>DoesNotExist\<close>, the answer is the redirect to
  Profile Listing, after one more log record at error level.
\<close>

theorem views_always_respond:
  assumes "user req = Some u"
  shows "(fst (MovieList_view e db i req) = Redirect ''netflixapp:profile-list'' \<or>
          (\<exists>ctx. fst (MovieList_view e db i req) = Render ''movielist.html'' ctx)) \<and>
         (fst (MovieDetail_view e db i req) = Redirect ''netflixapp:profile-list'' \<or>
          (\<exists>ctx. fst (MovieDetail_view e db i req) = Render ''moviedetail.html'' ctx)) \<and>
         (fst (PlayMovie_view e db i req) = Redirect ''netflixapp:profile-list'' \<or>
          (\<exists>ctx. fst (PlayMovie_view e db i req) = Render ''playmovie.html'' ctx)) \<and>
         (fst (MovieList_try e db req i) = Inl x \<and> class_of x \<noteq> Profile_DoesNotExist \<longrightarrow>
            MovieList_view e db i req =
              (Redirect ''netflixapp:profile-list'',
               snd (MovieList_try e db req i) @
                 [Log ERROR (''Unexpected error in MovieList view: '' @ str_of x)])) \<and>
         (Movie_objects_get e db i = Inl x \<and> class_of x \<noteq> Movie_DoesNotExist \<longrightarrow>
            MovieDetail_view e db i req =
              (Redirect ''netflixapp:profile-list'',
               [Log ERROR (''Error in MovieDetail view: '' @ str_of x)])) \<and>
         (PlayMovie_try e db i req = Inl x \<and> class_of x \<noteq> Movie_DoesNotExist \<longrightarrow>
            PlayMovie_view e db i req =
              (Redirect ''netflixapp:profile-list'',
               [Log ERROR (''Error in PlayMovie view: '' @ str_of x)]))"
proof -
  have 1: "fst (MovieList_view e db i req) = Redirect ''netflixapp:profile-list'' \<or>
          (\<exists>ctx. fst (MovieList_view e db i req) = Render ''movielist.html'' ctx)"
  proof (cases "MovieList_try e db req i")
    case (Pair r evs)
    with assms MovieList_try_response [of e db req i] show ?thesis
      by (cases r)
        (auto simp: MovieList_view_def login_required_def MovieList_get_def redirect_def
          profile_list_url_def)
  qed
  have 2: "fst (MovieDetail_view e db i req) = Redirect ''netflixapp:profile-list'' \<or>
          (\<exists>ctx. fst (MovieDetail_view e db i req) = Render ''moviedetail.html'' ctx)"
    using assms
    by (auto simp: MovieDetail_view_def login_required_def MovieDetail_get_def
        redirect_def render_def profile_list_url_def split: sum.splits)
  have 3: "fst (PlayMovie_view e db i req) = Redirect ''netflixapp:profile-list'' \<or>
          (\<exists>ctx. fst (PlayMovie_view e db i req) = Render ''playmovie.html'' ctx)"
    using assms
    by (auto simp: PlayMovie_view_def login_required_def PlayMovie_get_def PlayMovie_try_def
        redirect_def render_def profile_list_url_def split: sum.splits)
  have 4: "fst (MovieList_try e db req i) = Inl x \<and> class_of x \<noteq> Profile_DoesNotExist \<longrightarrow>
            MovieList_view e db i req =
              (Redirect ''netflixapp:profile-list'',
               snd (MovieList_try e db req i) @
                 [Log ERROR (''Unexpected error in MovieList view: '' @ str_of x)])"
    using assms
    by (cases "MovieList_try e db req i")
      (simp add: MovieList_view_def login_required_def MovieList_get_def redirect_def
        profile_list_url_def logger_error_def)
  have 5: "Movie_objects_get e db i = Inl x \<and> class_of x \<noteq> Movie_DoesNotExist \<longrightarrow>
            MovieDetail_view e db i req =
              (Redirect ''netflixapp:profile-list'',
               [Log ERROR (''Error in MovieDetail view: '' @ str_of x)])"
    using assms
    by (simp add: MovieDetail_view_def login_required_def MovieDetail_get_def redirect_def
        profile_list_url_def logger_error_def)
  have 6: "PlayMovie_try e db i req = Inl x \<and> class_of x \<noteq> Movie_DoesNotExist \<longrightarrow>
            PlayMovie_view e db i req =
              (Redirect ''netflixapp:profile-list'',
               [Log ERROR (''Error in PlayMovie view: '' @ str_of x)])"
    using assms
    by (simp add: PlayMovie_view_def login_required_def PlayMovie_get_def redirect_def
        profile_list_url_def logger_error_def)
  from 1 2 3 4 5 6 show ?thesis by blast
qed

text \<open>The database refuses every call while alice asks for a stored title.\<close>

theorem views_always_respond_witness:
  "user as_alice = Some alice \<and>
   fst (MovieList_try db_down shop as_alice heist_id) =
     Inl (Exc DatabaseError ''connection refused'') \<and>
   Movie_objects_get db_down shop heist_id = Inl (Exc DatabaseError ''connection refused'') \<and>
   PlayMovie_try db_down shop heist_id as_alice =
     Inl (Exc DatabaseError ''connection refused'') \<and>
   MovieList_view db_down shop heist_id as_alice =
     (Redirect ''netflixapp:profile-list'',
      [Log ERROR ''Unexpected error in MovieList view: connection refused'']) \<and>
   MovieDetail_view db_down shop heist_id as_alice =
     (Redirect ''netflixapp:profile-list'',
      [Log ERROR ''Error in MovieDetail view: connection refused'']) \<and>
   PlayMovie_view db_down shop heist_id as_alice =
     (Redirect ''netflixapp:profile-list'',
      [Log ERROR ''Error in PlayMovie view: connection refused''])"
proof -
  have h: "user as_alice = Some alice"
    and t: "MovieList_try db_down shop as_alice heist_id =
              (Inl (Exc DatabaseError ''connection refused''), [])"
      "Movie_objects_get db_down shop heist_id =
         Inl (Exc DatabaseError ''connection refused'')"
      "PlayMovie_try db_down shop heist_id as_alice =
         Inl (Exc DatabaseError ''connection refused'')"
    by (simp_all add: MovieList_try_def PlayMovie_try_def Profile_objects_get_def
        Movie_objects_get_def example_defs id_parses)
  from views_always_respond
         [OF h, of db_down shop heist_id "Exc DatabaseError ''connection refused''"] h t
  show ?thesis by simp
qed

section \<open>Titles\<close>





text \<open>
  C9. Whatever the request, anonymous ones included, \<open>debug_settings\<close> answers with a JSON
  object of exactly four entries, in this order: SECURE_SSL_REDIRECT,
  SESSION_COOKIE_SECURE, CSRF_COOKIE_SECURE and DEBUG, each with the configured value of
  that setting (null when the setting is absent). The view is not wrapped in
  \<open>login_required\<close>, and the answer does not depend on the request.
\<close>

theorem debug_settings_unguarded:
  "debug_settings e req =
     JsonResponse
       (map (\<lambda>k. (k, case settings e k of None \<Rightarrow> PyNone | Some v \<Rightarrow> v))
          [''SECURE_SSL_REDIRECT'', ''SESSION_COOKIE_SECURE'', ''CSRF_COOKIE_SECURE'',
           ''DEBUG'']) \<and>
   debug_settings e (req\<lparr>user := None\<rparr>) = debug_settings e req"
  by (simp add: debug_settings_def getattr_settings_def)

section \<open>Profile creation\<close>

text \<open>
  C7. For an authenticated profile-creation submission whose name is longer than 200
  characters or whose age category is neither \<open>All\<close> nor \<open>Kids\<close>, validation fails, the
  form is rendered again, and the database is left as it was: no Profile row is created
  and no profile is attached to the account.
\<close>

theorem ProfileCreate_rejects_invalid_fields:
  assumes "user req = Some u"
    and "200 < length (field_value (POST req) ''name'') \<or>
         field_value (POST req) ''age_limit'' \<notin> {''All'', ''Kids''}"
  shows "\<not> is_valid (ProfileForm (POST_or_None req)) \<and>
         ProfileCreate_post_view e db req =
           (Render ''profilecreate.html'' [(''form'', CtxForm (ProfileForm (POST_or_None req)))],
            db, [])"
proof -
  have "\<not> is_valid (ProfileForm (POST_or_None req))"
    using assms(2)
    by (auto simp: is_valid_def ProfileForm_def POST_or_None_def name_errors_def
        age_limit_errors_def AGE_CHOICES_def split: if_splits)
  then show ?thesis
    using assms(1)
    by (simp add: ProfileCreate_post_view_def ProfileCreate_post_def render_def Let_def)
qed

text \<open>A name of 201 characters, and the age category \<open>Teen\<close>.\<close>

theorem ProfileCreate_rejects_invalid_fields_witness:
  "user long_name_submission = Some alice \<and>
   200 < length (field_value (POST long_name_submission) ''name'') \<and>
   field_value (POST teen_submission) ''age_limit'' \<notin> {''All'', ''Kids''} \<and>
   \<not> is_valid (ProfileForm (POST_or_None long_name_submission)) \<and>
   \<not> is_valid (ProfileForm (POST_or_None teen_submission)) \<and>
   fst (snd (ProfileCreate_post_view calm shop long_name_submission)) = shop \<and>
   fst (snd (ProfileCreate_post_view calm shop teen_submission)) = shop"
proof -
  have u: "user long_name_submission = Some alice" "user teen_submission = Some alice"
    by (simp_all add: example_defs)
  have n: "200 < length (field_value (POST long_name_submission) ''name'')"
    by (simp add: field_value_def long_name_submission_def)
  have a: "field_value (POST teen_submission) ''age_limit'' \<notin> {''All'', ''Kids''}"
    by (simp add: field_value_def teen_submission_def)
  from ProfileCreate_rejects_invalid_fields [OF u(1) disjI1 [OF n], of calm shop]
       ProfileCreate_rejects_invalid_fields [OF u(2) disjI2 [OF a], of calm shop] u n a
  show ?thesis by simp
qed

text \<open>
  C3, as the code has it. For an authenticated profile-creation submission:
  if validation fails, the form is rendered again and nothing is written; it carries an
  error message whenever the submission had at least one field. If creating the Profile
  raises, the error is logged, the form is rendered again with the form-level message,
  and nothing is written. If attaching the created Profile to the account raises, the
  error is logged and the form is rendered again with the form-level message; the created
  Profile row stays in the table, attached to no account, and the account's profiles are
  unchanged. The account's profiles change only when the Profile row has been created:
  then that row is new in the table, it is the one attached, and the answer is the
  redirect to Profile Listing.
\<close>

theorem ProfileCreate_failure_attaches_nothing:
  assumes "user req = Some u"
    and "f = ProfileForm (POST_or_None req)"
    and "ProfileCreate_post_view e db req = (resp, db', evs)"
  shows "(\<not> is_valid f \<longrightarrow>
            resp = Render ''profilecreate.html'' [(''form'', CtxForm f)] \<and> db' = db \<and>
            evs = [] \<and> (POST req \<noteq> [] \<longrightarrow> form_errors f \<noteq> [])) \<and>
         (is_valid f \<and> Profile_objects_create e db (cleaned_data f) = Inl x \<longrightarrow>
            resp = Render ''profilecreate.html''
                     [(''form'',
                       CtxForm (f\<lparr>form_errors :=
                                  form_errors f @
                                    [(None, ''An error occurred while creating the profile.'')]\<rparr>))] \<and>
            evs = [Log ERROR (''Error creating profile: '' @ str_of x)] \<and> db' = db) \<and>
         (is_valid f \<and> Profile_objects_create e db (cleaned_data f) = Inr (p, db1) \<and>
          user_profiles_add e db1 req p = Inl x \<longrightarrow>
            resp = Render ''profilecreate.html''
                     [(''form'',
                       CtxForm (f\<lparr>form_errors :=
                                  form_errors f @
                                    [(None, ''An error occurred while creating the profile.'')]\<rparr>))] \<and>
            evs = [Log ERROR (''Error creating profile: '' @ str_of x)] \<and>
            db' = db\<lparr>profile_table := profile_table db @ [p]\<rparr> \<and>
            p \<notin> set (profile_table db) \<and>
            customuser_profiles db' = customuser_profiles db) \<and>
         (customuser_profiles db' \<noteq> customuser_profiles db \<longrightarrow>
            resp = Redirect ''netflixapp:profile-list'' \<and>
            (\<exists>q d. Profile_objects_create e db (cleaned_data f) = Inr (q, d) \<and>
               q \<in> set (profile_table db') \<and> q \<notin> set (profile_table db) \<and>
               customuser_profiles db' = customuser_profiles db @ [(user_pk u, profile_pk q)]))"
proof -
  note create = Profile_objects_create_Inr
  have 1: "\<not> is_valid f \<longrightarrow>
            resp = Render ''profilecreate.html'' [(''form'', CtxForm f)] \<and> db' = db \<and>
            evs = [] \<and> (POST req \<noteq> [] \<longrightarrow> form_errors f \<noteq> [])"
    using assms
    by (auto simp: ProfileCreate_post_view_def ProfileCreate_post_def render_def Let_def
        is_valid_def ProfileForm_def POST_or_None_def)
  have 2: "is_valid f \<and> Profile_objects_create e db (cleaned_data f) = Inl x \<longrightarrow>
            resp = Render ''profilecreate.html''
                     [(''form'',
                       CtxForm (f\<lparr>form_errors :=
                                  form_errors f @
                                    [(None, ''An error occurred while creating the profile.'')]\<rparr>))] \<and>
            evs = [Log ERROR (''Error creating profile: '' @ str_of x)] \<and> db' = db"
    using assms
    by (auto simp: ProfileCreate_post_view_def ProfileCreate_post_def render_def Let_def
        ProfileCreate_try_def add_error_def logger_error_def)
  have 3: "is_valid f \<and> Profile_objects_create e db (cleaned_data f) = Inr (p, db1) \<and>
          user_profiles_add e db1 req p = Inl x \<longrightarrow>
            resp = Render ''profilecreate.html''
                     [(''form'',
                       CtxForm (f\<lparr>form_errors :=
                                  form_errors f @
                                    [(None, ''An error occurred while creating the profile.'')]\<rparr>))] \<and>
            evs = [Log ERROR (''Error creating profile: '' @ str_of x)] \<and>
            db' = db\<lparr>profile_table := profile_table db @ [p]\<rparr> \<and>
            p \<notin> set (profile_table db) \<and>
            customuser_profiles db' = customuser_profiles db"
  proof (intro impI, elim conjE)
    assume v: "is_valid f" and c: "Profile_objects_create e db (cleaned_data f) = Inr (p, db1)"
      and a: "user_profiles_add e db1 req p = Inl x"
    from create [OF c] have d: "db1 = db\<lparr>profile_table := profile_table db @ [p]\<rparr>"
      and n: "profile_uuid p \<notin> profile_uuid ` set (profile_table db)" by simp_all
    from n have "p \<notin> set (profile_table db)" by blast
    moreover from assms v c a
    have "resp = Render ''profilecreate.html''
                     [(''form'',
                       CtxForm (f\<lparr>form_errors :=
                                  form_errors f @
                                    [(None, ''An error occurred while creating the profile.'')]\<rparr>))] \<and>
          evs = [Log ERROR (''Error creating profile: '' @ str_of x)] \<and> db' = db1"
      by (auto simp: ProfileCreate_post_view_def ProfileCreate_post_def render_def Let_def
          ProfileCreate_try_def add_error_def logger_error_def)
    ultimately show "resp = Render ''profilecreate.html''
                     [(''form'',
                       CtxForm (f\<lparr>form_errors :=
                                  form_errors f @
                                    [(None, ''An error occurred while creating the profile.'')]\<rparr>))] \<and>
            evs = [Log ERROR (''Error creating profile: '' @ str_of x)] \<and>
            db' = db\<lparr>profile_table := profile_table db @ [p]\<rparr> \<and>
            p \<notin> set (profile_table db) \<and>
            customuser_profiles db' = customuser_profiles db"
      using d by simp
  qed
  have 4: "customuser_profiles db' \<noteq> customuser_profiles db \<longrightarrow>
            resp = Redirect ''netflixapp:profile-list'' \<and>
            (\<exists>q d. Profile_objects_create e db (cleaned_data f) = Inr (q, d) \<and>
               q \<in> set (profile_table db') \<and> q \<notin> set (profile_table db) \<and>
               customuser_profiles db' = customuser_profiles db @ [(user_pk u, profile_pk q)])"
    using assms
    by (auto simp: ProfileCreate_post_view_def ProfileCreate_post_def render_def Let_def
        ProfileCreate_try_def user_profiles_add_def redirect_def profile_list_url_def
        dest: create split: sum.splits prod.splits if_splits option.splits)
  from 1 2 3 4 show ?thesis by blast
qed

text \<open>
  alice submits an unknown age category; a valid form while the next UUID is already
  stored; a valid form while attaching fails; and a valid form that goes through.
\<close>

theorem ProfileCreate_failure_attaches_nothing_witness:
  "user teen_submission = Some alice \<and> user study_submission = Some alice \<and>
   \<not> is_valid (ProfileForm (POST_or_None teen_submission)) \<and>
   POST teen_submission \<noteq> [] \<and>
   form_errors (ProfileForm (POST_or_None teen_submission)) \<noteq> [] \<and>
   ProfileCreate_post_view calm shop teen_submission =
     (Render ''profilecreate.html''
        [(''form'', CtxForm (ProfileForm (POST_or_None teen_submission)))], shop, []) \<and>
   is_valid (ProfileForm (POST_or_None study_submission)) \<and>
   Profile_objects_create colliding shop
       (cleaned_data (ProfileForm (POST_or_None study_submission))) =
     Inl (Exc IntegrityError ''UNIQUE constraint failed: netflixapp_profile.uuid'') \<and>
   snd (ProfileCreate_post_view colliding shop study_submission) =
     (shop,
      [Log ERROR ''Error creating profile: UNIQUE constraint failed: netflixapp_profile.uuid'']) \<and>
   Profile_objects_create attach_failing shop
       (cleaned_data (ProfileForm (POST_or_None study_submission))) =
     Inr (study, shop\<lparr>profile_table := [kids_room, den, study]\<rparr>) \<and>
   user_profiles_add attach_failing (shop\<lparr>profile_table := [kids_room, den, study]\<rparr>)
       study_submission study =
     Inl (Exc DatabaseError ''deadlock'') \<and>
   snd (ProfileCreate_post_view attach_failing shop study_submission) =
     (shop\<lparr>profile_table := [kids_room, den, study]\<rparr>,
      [Log ERROR ''Error creating profile: deadlock'']) \<and>
   study \<notin> set (profile_table shop) \<and>
   ProfileCreate_post_view calm shop study_submission =
     (Redirect ''netflixapp:profile-list'',
      shop\<lparr>profile_table := [kids_room, den, study],
           customuser_profiles := [(1, 1), (2, 2), (1, 3)]\<rparr>, [])"
proof -
  let ?T = "ProfileForm (POST_or_None teen_submission)"
  let ?S = "ProfileForm (POST_or_None study_submission)"
  have u: "user teen_submission = Some alice" "user study_submission = Some alice"
    by (simp_all add: example_defs)
  have t: "ProfileCreate_post_view calm shop teen_submission =
             (Render ''profilecreate.html'' [(''form'', CtxForm ?T)], shop, [])"
    and tv: "\<not> is_valid ?T" "POST teen_submission \<noteq> []"
    by (simp_all add: create_defs example_defs)
  have sv: "is_valid ?S"
    by (simp add: create_defs example_defs)
  have c: "ProfileCreate_post_view colliding shop study_submission =
             (Render ''profilecreate.html''
                [(''form'', CtxForm (add_error ?S None
                    ''An error occurred while creating the profile.''))], shop,
              [Log ERROR
                 ''Error creating profile: UNIQUE constraint failed: netflixapp_profile.uuid''])"
    and cx: "Profile_objects_create colliding shop (cleaned_data ?S) =
         Inl (Exc IntegrityError ''UNIQUE constraint failed: netflixapp_profile.uuid'')"
    by (simp_all add: create_defs example_defs)
  have a: "ProfileCreate_post_view attach_failing shop study_submission =
             (Render ''profilecreate.html''
                [(''form'', CtxForm (add_error ?S None
                    ''An error occurred while creating the profile.''))],
              shop\<lparr>profile_table := [kids_room, den, study]\<rparr>,
              [Log ERROR ''Error creating profile: deadlock''])"
    and ac: "Profile_objects_create attach_failing shop (cleaned_data ?S) =
               Inr (study, shop\<lparr>profile_table := [kids_room, den, study]\<rparr>)"
    and ax: "user_profiles_add attach_failing (shop\<lparr>profile_table := [kids_room, den, study]\<rparr>)
               study_submission study =
             Inl (Exc DatabaseError ''deadlock'')"
    by (simp_all add: create_defs example_defs)
  have s: "ProfileCreate_post_view calm shop study_submission =
             (Redirect ''netflixapp:profile-list'',
              shop\<lparr>profile_table := [kids_room, den, study],
                   customuser_profiles := [(1, 1), (2, 2), (1, 3)]\<rparr>, [])"
    by (simp add: create_defs example_defs)
  have sx: "customuser_profiles
              (shop\<lparr>profile_table := [kids_room, den, study],
                    customuser_profiles := [(1, 1), (2, 2), (1, 3)]\<rparr>) \<noteq>
            customuser_profiles shop"
    by (simp add: shop_def)
  from ProfileCreate_failure_attaches_nothing [OF u(1) refl t]
       ProfileCreate_failure_attaches_nothing [OF u(2) refl c,
         of "Exc IntegrityError ''UNIQUE constraint failed: netflixapp_profile.uuid''"]
       ProfileCreate_failure_attaches_nothing [OF u(2) refl a,
         of "Exc DatabaseError ''deadlock''" study
            "shop\<lparr>profile_table := [kids_room, den, study]\<rparr>"]
       ProfileCreate_failure_attaches_nothing [OF u(2) refl s]
       u t tv sv c cx a ac ax s sx
  show ?thesis by simp
qed

text \<open>
  The claim fails in two places. A submission without any field: \<open>request.POST or None\<close>
  is \<open>None\<close>, the form is unbound, \<open>is_valid\<close> is false, and the form is rendered again
  without any error message. And a valid submission whose attach step raises: the Profile
  row created just before stays in the table, attached to no account.
\<close>

theorem ProfileCreate_no_message_or_row_left_behind:
  "\<not> is_valid (ProfileForm (POST_or_None as_alice)) \<and>
   ProfileCreate_post_view calm shop as_alice =
     (Render ''profilecreate.html''
        [(''form'',
          CtxForm \<lparr>is_bound = False, form_data = [], form_errors = [], cleaned_data = []\<rparr>)],
      shop, []) \<and>
   fst (snd (ProfileCreate_post_view attach_failing shop study_submission)) =
     shop\<lparr>profile_table := [kids_room, den, study]\<rparr> \<and>
   shop\<lparr>profile_table := [kids_room, den, study]\<rparr> \<noteq> shop"
  by (simp add: create_defs example_defs)
end
